theory Spec2Isabelle
  imports Complex_Main
begin

section \<open>Python values used by the recommendation code\<close>

text \<open>
  A Python \<open>dict\<close> is an association list in insertion order whose keys are pairwise
  distinct (\<open>distinct (map fst d)\<close>); iteration yields the entries in list order.
  Python floats are modelled as real numbers: rounding, overflow and NaN are outside the
  model.
\<close>

type_synonym ('k, 'v) dict = "('k \<times> 'v) list"

definition keys :: "('k, 'v) dict \<Rightarrow> 'k list" where
  "keys d = map fst d"

text \<open>\<open>d[k]\<close> for a key that is drawn from \<open>d\<close>'s own keys (no \<open>KeyError\<close> can arise there).\<close>

definition getitem :: "('k, 'v) dict \<Rightarrow> 'k \<Rightarrow> 'v" where
  "getitem d k = the (map_of d k)"

text \<open>\<open>set(a.keys()) & set(b.keys())\<close>, listed in the order of \<open>a\<close>.\<close>

definition common_keys :: "('k, 'v) dict \<Rightarrow> ('k, 'w) dict \<Rightarrow> 'k list" where
  "common_keys a b = filter (\<lambda>k. k \<in> set (keys b)) (keys a)"

datatype py_error = TypeError | ValueError | ZeroDivisionError | IntegrityError

text \<open>The argument handed to \<open>math.sqrt\<close>: a number, or a generator object.\<close>

datatype sqrt_arg = Number real | Generator "real list"

definition math_sqrt :: "sqrt_arg \<Rightarrow> py_error + real" where
  "math_sqrt a = (case a of
      Number x \<Rightarrow> if x < 0 then Inl ValueError else Inr (sqrt x)
    | Generator g \<Rightarrow> Inl TypeError)"

section \<open>User similarity\<close>

subsection \<open>\<open>app.py\<close>: \<open>calculate_user_similarity\<close>\<close>

definition calculate_user_similarity :: "('k, real) dict \<Rightarrow> ('k, real) dict \<Rightarrow> real" where
  "calculate_user_similarity user1_items user2_items =
     (let common_items = common_keys user1_items user2_items in
      if length common_items = 0 then 0
      else
        let sum_squares1 = sum_list (map (\<lambda>item. (getitem user1_items item)\<^sup>2) (keys user1_items));
            sum_squares2 = sum_list (map (\<lambda>item. (getitem user2_items item)\<^sup>2) (keys user2_items));
            sum_products = sum_list (map (\<lambda>item. getitem user1_items item * getitem user2_items item)
                                         common_items);
            denominator = sqrt (sum_squares1 * sum_squares2)
        in if denominator = 0 then 0 else sum_products / denominator)"

subsection \<open>\<open>product_recommendation_engine.py\<close>: \<open>calculate_user_similarity\<close>\<close>

text \<open>
  The body of the \<open>try\<close> block. \<open>magnitude2\<close> applies \<open>math.sqrt\<close> to the generator
  expression itself, not to its sum.
\<close>

definition calculate_user_similarity_product_try ::
  "('k, real) dict \<Rightarrow> ('k, real) dict \<Rightarrow> py_error + real" where
  "calculate_user_similarity_product_try user1_products user2_products =
     (let common_products = common_keys user1_products user2_products in
      if length common_products = 0 then Inr 0
      else
        let user1_vector = map (getitem user1_products) common_products;
            user2_vector = map (getitem user2_products) common_products;
            dot_product = sum_list (map (\<lambda>(u1, u2). u1 * u2) (zip user1_vector user2_vector))
        in case math_sqrt (Number (sum_list (map (\<lambda>u1. u1\<^sup>2) user1_vector))) of
             Inl e \<Rightarrow> Inl e
           | Inr magnitude1 \<Rightarrow>
              (case math_sqrt (Generator (map (\<lambda>u2. u2\<^sup>2) user2_vector)) of
                 Inl e \<Rightarrow> Inl e
               | Inr magnitude2 \<Rightarrow>
                  if magnitude1 = 0 \<or> magnitude2 = 0 then Inr 0
                  else let similarity = dot_product / (magnitude1 * magnitude2)
                       in Inr (max 0 similarity)))"

text \<open>The \<open>except Exception\<close> handler logs and returns \<open>0.0\<close>.\<close>

definition calculate_user_similarity_product :: "('k, real) dict \<Rightarrow> ('k, real) dict \<Rightarrow> real" where
  "calculate_user_similarity_product user1_products user2_products =
     (case calculate_user_similarity_product_try user1_products user2_products of
        Inl e \<Rightarrow> 0
      | Inr r \<Rightarrow> r)"

subsection \<open>The specification's similarity\<close>




section \<open>Python lists, strings and dictionaries\<close>

text \<open>
  \<open>sorted(xs, key=f, reverse=True)\<close> and \<open>xs.sort(key=f, reverse=True)\<close>: a stable sort by
  descending key (elements with equal keys keep their order).
\<close>

definition sorted_desc :: "('a \<Rightarrow> 'b::{linorder, uminus}) \<Rightarrow> 'a list \<Rightarrow> 'a list" where
  "sorted_desc f xs = sort_key (\<lambda>x. - f x) xs"

text \<open>The values of a column or a list without repetitions, in order of first occurrence.\<close>

definition uniq :: "'a list \<Rightarrow> 'a list" where
  "uniq xs = rev (remdups (rev xs))"

text \<open>\<open>d[k] = v\<close>: an existing key keeps its position, a new key goes last.\<close>

fun dict_set :: "('k, 'v) dict \<Rightarrow> 'k \<Rightarrow> 'v \<Rightarrow> ('k, 'v) dict" where
  "dict_set [] k v = [(k, v)]"
| "dict_set ((k', w) # d) k v = (if k' = k then (k, v) # d else (k', w) # dict_set d k v)"

text \<open>\<open>d.get(k, default)\<close>, and \<open>d[k]\<close> on a \<open>defaultdict\<close> whose factory gives \<open>default\<close>.\<close>

definition dict_get :: "('k, 'v) dict \<Rightarrow> 'k \<Rightarrow> 'v \<Rightarrow> 'v" where
  "dict_get d k dflt = (case map_of d k of None \<Rightarrow> dflt | Some v \<Rightarrow> v)"

text \<open>\<open>d[k] += v\<close> on a \<open>defaultdict(float)\<close>.\<close>

definition dict_add :: "('k, real) dict \<Rightarrow> 'k \<Rightarrow> real \<Rightarrow> ('k, real) dict" where
  "dict_add d k v = dict_set d k (dict_get d k 0 + v)"

text \<open>\<open>Counter(xs)\<close> and \<open>Counter.most_common(n)\<close> (equal counts in order of first occurrence).\<close>

definition counter :: "'a list \<Rightarrow> ('a, int) dict" where
  "counter xs = fold (\<lambda>x d. dict_set d x (dict_get d x 0 + 1)) xs []"

definition most_common :: "nat \<Rightarrow> ('a, int) dict \<Rightarrow> ('a \<times> int) list" where
  "most_common n d = take n (sorted_desc snd d)"

text \<open>
  Strings are lists of characters with codes below 256. Whitespace is what \<open>str.isspace\<close>
  accepts there below 128; \<open>lower\<close> maps \<open>A\<close> to \<open>Z\<close>.
\<close>

definition isspace :: "char \<Rightarrow> bool" where
  "isspace c = (let n = (of_char c :: nat) in (9 \<le> n \<and> n \<le> 13) \<or> (28 \<le> n \<and> n \<le> 32))"

definition isupper :: "char \<Rightarrow> bool" where
  "isupper c = (let n = (of_char c :: nat) in 65 \<le> n \<and> n \<le> 90)"

definition islower :: "char \<Rightarrow> bool" where
  "islower c = (let n = (of_char c :: nat) in 97 \<le> n \<and> n \<le> 122)"

definition isdigit :: "char \<Rightarrow> bool" where
  "isdigit c = (let n = (of_char c :: nat) in 48 \<le> n \<and> n \<le> 57)"

definition lower_char :: "char \<Rightarrow> char" where
  "lower_char c = (if isupper c then char_of (of_char c + (32 :: nat)) else c)"

definition lower :: "string \<Rightarrow> string" where
  "lower s = map lower_char s"

definition strip :: "string \<Rightarrow> string" where
  "strip s = rev (dropWhile isspace (rev (dropWhile isspace s)))"

text \<open>Splitting at every character that satisfies \<open>p\<close>; the result is never empty.\<close>

fun split_by :: "(char \<Rightarrow> bool) \<Rightarrow> string \<Rightarrow> string list" where
  "split_by p [] = [[]]"
| "split_by p (x # xs) =
     (if p x then [] # split_by p xs
      else (case split_by p xs of w # ws \<Rightarrow> (x # w) # ws | [] \<Rightarrow> [[x]]))"

text \<open>\<open>s.split(',')\<close>.\<close>

definition split_comma :: "string \<Rightarrow> string list" where
  "split_comma s = split_by (\<lambda>c. c = CHR '','') s"

text \<open>\<open>s.split()\<close>: the maximal runs of non-whitespace characters.\<close>

definition split_ws :: "string \<Rightarrow> string list" where
  "split_ws s = filter (\<lambda>w. w \<noteq> []) (split_by isspace s)"




section \<open>The content database\<close>

text \<open>
  A \<open>datetime\<close> is a number of seconds. A table is the list of its rows in the order an
  unordered query returns them. Database reads do not fail in the model.
\<close>

type_synonym datetime = int

definition days :: "int \<Rightarrow> int" where
  "days n = n * 86400"

record content =
  c_id :: int
  c_title :: string
  c_content :: string
  c_category :: string
  c_status :: string
  c_author :: string
  c_tags :: "string option"
  c_created_at :: datetime

record user_interaction =
  i_user_id :: string
  i_content_id :: int
  i_interaction_type :: string
  i_interaction_score :: real
  i_timestamp :: datetime

record database =
  content_table :: "content list"
  interaction_table :: "user_interaction list"

text \<open>\<open>Content.get_tags_list\<close>.\<close>

definition get_tags_list :: "content \<Rightarrow> string list" where
  "get_tags_list self =
     (case c_tags self of
        None \<Rightarrow> []
      | Some t \<Rightarrow> if t = [] then []
                  else map strip (filter (\<lambda>tag. strip tag \<noteq> []) (split_comma t)))"

text \<open>The relationship \<open>interaction.content\<close>.\<close>

definition interaction_content :: "database \<Rightarrow> user_interaction \<Rightarrow> content option" where
  "interaction_content db interaction =
     List.find (\<lambda>c. c_id c = i_content_id interaction) (content_table db)"

section \<open>Recording interactions\<close>





subsection \<open>\<open>app.py\<close>: \<open>track_user_interaction\<close>\<close>


subsection \<open>\<open>recommendation_engine.py\<close>: \<open>track_recommendation_feedback\<close>\<close>



section \<open>\<open>recommendation_engine.py\<close>: the behaviour analyser\<close>

record preferences =
  categories :: "(string, real) dict"
  authors :: "(string, real) dict"
  tags :: "(string, real) dict"
  total_interactions :: nat
  recent_activity :: nat

definition get_default_preferences :: preferences where
  "get_default_preferences =
     \<lparr>categories = [], authors = [], tags = [], total_interactions = 0, recent_activity = 0\<rparr>"

definition interaction_weights :: "(string, real) dict" where
  "interaction_weights =
     [(''view'', 1), (''edit'', 3), (''like'', 2), (''share'', 5 / 2), (''create'', 4)]"

definition time_decay_factor :: real where
  "time_decay_factor = 95 / 100"

text \<open>\<open>[tag.strip().lower() for tag in content.tags.split(',')]\<close>, under \<open>if content.tags\<close>.\<close>

definition lowered_tags :: "content \<Rightarrow> string list" where
  "lowered_tags c =
     (case c_tags c of
        None \<Rightarrow> []
      | Some t \<Rightarrow> if t = [] then [] else map (\<lambda>tag. lower (strip tag)) (split_comma t))"

text \<open>
  One pass of the loop over \<open>enumerate(sorted(interactions, key=timestamp))\<close>; \<open>n\<close> is
  \<open>len(interactions)\<close> and the state is the three score dictionaries.
\<close>

definition behavior_step ::
  "database \<Rightarrow> nat \<Rightarrow> nat \<times> user_interaction
     \<Rightarrow> (string, real) dict \<times> (string, real) dict \<times> (string, real) dict
     \<Rightarrow> (string, real) dict \<times> (string, real) dict \<times> (string, real) dict" where
  "behavior_step db n = (\<lambda>(i, interaction) (category_scores, author_scores, tag_scores).
     case interaction_content db interaction of
       None \<Rightarrow> (category_scores, author_scores, tag_scores)
     | Some content \<Rightarrow>
         if c_status content \<noteq> ''Published'' then (category_scores, author_scores, tag_scores)
         else
           let time_weight = time_decay_factor ^ (n - i - 1);
               interaction_weight =
                 dict_get interaction_weights (i_interaction_type interaction) 1;
               total_weight = interaction_weight * time_weight * i_interaction_score interaction
           in (dict_add category_scores (c_category content) total_weight,
               dict_add author_scores (c_author content) total_weight,
               fold (\<lambda>tag scores. dict_add scores tag (total_weight * (1 / 2)))
                 (lowered_tags content) tag_scores))"

text \<open>\<open>max(scores.values()) if scores else 1\<close>.\<close>

definition max_score :: "(string, real) dict \<Rightarrow> real" where
  "max_score scores = (if scores \<noteq> [] then Max (set (map snd scores)) else 1)"

text \<open>\<open>{k: v / m for k, v in scores.items()}\<close>: the first division by zero raises.\<close>

definition normalize :: "(string, real) dict \<Rightarrow> real \<Rightarrow> py_error + (string, real) dict" where
  "normalize scores m =
     (if scores = [] then Inr []
      else if m = 0 then Inl ZeroDivisionError
      else Inr (map (\<lambda>(k, v). (k, v / m)) scores))"

text \<open>\<open>now\<close> is \<open>datetime.utcnow()\<close>; every exception leads to the default preferences.\<close>

definition analyze_user_behavior :: "database \<Rightarrow> datetime \<Rightarrow> string \<Rightarrow> preferences" where
  "analyze_user_behavior db now user_id =
     (let recent_date = now - days 90;
          interactions = filter (\<lambda>i. i_user_id i = user_id \<and> i_timestamp i \<ge> recent_date)
                           (interaction_table db)
      in if interactions = [] then get_default_preferences
         else
           let (category_scores, author_scores, tag_scores) =
                 fold (behavior_step db (length interactions))
                   (enumerate 0 (sort_key i_timestamp interactions)) ([], [], []);
               max_category_score = max_score category_scores;
               max_author_score = max_score author_scores;
               max_tag_score = max_score tag_scores
           in case normalize category_scores max_category_score of
                Inl e \<Rightarrow> get_default_preferences
              | Inr normalized_categories \<Rightarrow>
             (case normalize author_scores max_author_score of
                Inl e \<Rightarrow> get_default_preferences
              | Inr normalized_authors \<Rightarrow>
             (case normalize tag_scores max_tag_score of
                Inl e \<Rightarrow> get_default_preferences
              | Inr normalized_tags \<Rightarrow>
                  \<lparr>categories = normalized_categories,
                   authors = normalized_authors,
                   tags = normalized_tags,
                   total_interactions = length interactions,
                   recent_activity =
                     length (filter (\<lambda>i. i_timestamp i \<ge> now - days 7) interactions)\<rparr>)))"

subsection \<open>The specification's normalisation invariant\<close>

text \<open>
  The specification's words: the weights of a bucket are each in \<open>[0, 1]\<close>, and a
  non-empty bucket has a weight equal to exactly 1.
\<close>

definition normalized_bucket :: "(string, real) dict \<Rightarrow> bool" where
  "normalized_bucket d =
     ((\<forall>w \<in> set (map snd d). 0 \<le> w \<and> w \<le> 1) \<and> (d \<noteq> [] \<longrightarrow> 1 \<in> set (map snd d)))"

definition nonneg_values :: "('k, real) dict \<Rightarrow> bool" where
  "nonneg_values d = (\<forall>w \<in> set (map snd d). 0 \<le> w)"

section \<open>\<open>app.py\<close>: content similarity\<close>

definition isalnum :: "char \<Rightarrow> bool" where
  "isalnum c = (islower c \<or> isupper c \<or> isdigit c)"

text \<open>
  \<open>re.sub(r'<[^>]+>', '', s)\<close>: at a \<open><\<close> followed by at least one character other than
  \<open>>\<close> and then a \<open>>\<close>, everything up to that \<open>>\<close> is dropped; any other character is kept.
\<close>

function remove_html_tags :: "string \<Rightarrow> string" where
  "remove_html_tags [] = []"
| "remove_html_tags (x # xs) =
     (if x = CHR ''<'' \<and> takeWhile (\<lambda>c. c \<noteq> CHR ''>'') xs \<noteq> []
         \<and> dropWhile (\<lambda>c. c \<noteq> CHR ''>'') xs \<noteq> []
      then remove_html_tags (tl (dropWhile (\<lambda>c. c \<noteq> CHR ''>'') xs))
      else x # remove_html_tags xs)"
  by pat_completeness auto
termination
  by (relation "measure length")
    (auto simp: less_Suc_eq_le intro!: le_trans[OF diff_le_self length_dropWhile_le])

definition stop_words :: "string list" where
  "stop_words =
     [''the'', ''a'', ''an'', ''and'', ''or'', ''but'', ''in'', ''on'', ''at'', ''to'', ''for'',
      ''of'', ''with'', ''by'', ''is'', ''are'', ''was'', ''were'', ''be'', ''been'', ''being'',
      ''have'', ''has'', ''had'', ''do'', ''does'', ''did'', ''will'', ''would'', ''could'',
      ''should'', ''may'', ''might'', ''can'', ''this'', ''that'', ''these'', ''those'', ''i'',
      ''you'', ''he'', ''she'', ''it'', ''we'', ''they'', ''me'', ''him'', ''her'', ''us'',
      ''them'', ''my'', ''your'', ''his'', ''its'', ''our'', ''their'', ''not'', ''no'', ''yes'',
      ''if'', ''when'', ''where'', ''why'', ''how'']"

definition extract_keywords :: "string \<Rightarrow> nat \<Rightarrow> string list" where
  "extract_keywords text num_keywords =
     (let clean_text = remove_html_tags (lower text);
          clean_text = filter (\<lambda>c. isalnum c \<or> isspace c) clean_text;
          words = filter (\<lambda>word. length word > 3 \<and> word \<notin> set stop_words) (split_ws clean_text);
          word_freq = counter words
      in map fst (most_common num_keywords word_freq))"

definition calculate_content_similarity :: "content \<Rightarrow> content \<Rightarrow> real" where
  "calculate_content_similarity content1 content2 =
     (let score = 0;
          score = (if c_category content1 = c_category content2 then score + 4 / 10 else score);
          tags1 = set (get_tags_list content1);
          tags2 = set (get_tags_list content2);
          score = (if tags1 \<noteq> {} \<and> tags2 \<noteq> {}
                   then let tag_overlap = real (card (tags1 \<inter> tags2)) / real (card (tags1 \<union> tags2))
                        in score + 3 / 10 * tag_overlap
                   else score);
          keywords1 = set (extract_keywords (c_content content1) 10);
          keywords2 = set (extract_keywords (c_content content2) 10);
          score = (if keywords1 \<noteq> {} \<and> keywords2 \<noteq> {}
                   then let keyword_overlap =
                              real (card (keywords1 \<inter> keywords2)) / real (card (keywords1 \<union> keywords2))
                        in score + 2 / 10 * keyword_overlap
                   else score);
          score = (if c_author content1 = c_author content2 then score + 1 / 10 else score)
      in score)"

section \<open>Regular expressions searched by the classifier\<close>




















section \<open>\<open>user_type_classifier.py\<close>: \<open>UserTypeClassifier\<close>\<close>








section \<open>\<open>recommendation_engine.py\<close>: the content engine's strategies\<close>

text \<open>
  \<open>sklearn.metrics.pairwise.cosine_similarity\<close> on two rows, modelled from the library's
  documentation: each row is divided by its Euclidean norm (a zero row is left as it is),
  and the result is the dot product of the normalised rows.
\<close>

definition sk_normalize :: "real list \<Rightarrow> real list" where
  "sk_normalize row =
     (let norm = sqrt (sum_list (map (\<lambda>x. x\<^sup>2) row))
      in if norm = 0 then row else map (\<lambda>x. x / norm) row)"

definition cosine_similarity :: "real list \<Rightarrow> real list \<Rightarrow> real" where
  "cosine_similarity x y =
     sum_list (map (\<lambda>(a, b). a * b) (zip (sk_normalize x) (sk_normalize y)))"

subsection \<open>\<open>_get_trending_recommendations\<close>\<close>

text \<open>
  Published content created in the last 30 days, ordered by the number of its interactions
  and then by creation time, both descending.
\<close>

definition interaction_count :: "database \<Rightarrow> content \<Rightarrow> int" where
  "interaction_count db c =
     int (length (filter (\<lambda>i. i_content_id i = c_id c) (interaction_table db)))"

definition get_trending_recommendations :: "database \<Rightarrow> datetime \<Rightarrow> nat \<Rightarrow> content list" where
  "get_trending_recommendations db now num_recommendations =
     (let recent_date = now - days 30;
          trending_content =
            take num_recommendations
              (sorted_desc (interaction_count db)
                (sorted_desc c_created_at
                  (filter (\<lambda>c. c_status c = ''Published'' \<and> c_created_at c \<ge> recent_date)
                    (content_table db))))
      in trending_content)"

subsection \<open>\<open>get_collaborative_filtering_recommendations\<close>\<close>

text \<open>The row of the user-content matrix: the summed scores of a user per content.\<close>

definition matrix_row :: "database \<Rightarrow> int list \<Rightarrow> string \<Rightarrow> real list" where
  "matrix_row db content_ids u =
     map (\<lambda>c. sum_list (map i_interaction_score
                  (filter (\<lambda>i. i_user_id i = u \<and> i_content_id i = c) (interaction_table db))))
       content_ids"

text \<open>The content ids a user has interacted with.\<close>

definition user_content_ids :: "database \<Rightarrow> string \<Rightarrow> int list" where
  "user_content_ids db user_id =
     map i_content_id (filter (\<lambda>i. i_user_id i = user_id) (interaction_table db))"

text \<open>The loop that fills \<open>content_scores\<close> from the similar users' interactions.\<close>

definition engine_content_scores ::
  "database \<Rightarrow> string \<Rightarrow> (string \<times> real) list \<Rightarrow> (int, real) dict" where
  "engine_content_scores db user_id top_similar_users =
     (let target_user_interactions = set (user_content_ids db user_id)
      in fold (\<lambda>(similar_user_id, similarity) content_scores.
                 fold (\<lambda>interaction content_scores.
                         if i_content_id interaction \<notin> target_user_interactions
                         then dict_add content_scores (i_content_id interaction)
                                (similarity * i_interaction_score interaction)
                         else content_scores)
                   (filter (\<lambda>i. i_user_id i = similar_user_id) (interaction_table db))
                   content_scores)
            top_similar_users [])"

definition engine_similar_users :: "database \<Rightarrow> string \<Rightarrow> (string \<times> real) list" where
  "engine_similar_users db user_id =
     (let user_ids = uniq (map i_user_id (interaction_table db));
          content_ids = uniq (map i_content_id (interaction_table db));
          user_similarities =
            map (\<lambda>u. (u, cosine_similarity (matrix_row db content_ids user_id)
                                             (matrix_row db content_ids u))) user_ids;
          similar_users = filter (\<lambda>(u, similarity). u \<noteq> user_id \<and> similarity > 1 / 10)
                            user_similarities
      in take 10 (sorted_desc snd similar_users))"

definition get_collaborative_filtering_recommendations_engine ::
  "database \<Rightarrow> datetime \<Rightarrow> string \<Rightarrow> nat \<Rightarrow> content list" where
  "get_collaborative_filtering_recommendations_engine db now user_id num_recommendations =
     (let users = uniq (map i_user_id (interaction_table db));
          contents = uniq (map i_content_id (interaction_table db))
      in if length users < 2 \<or> length contents < 2
         then get_trending_recommendations db now num_recommendations
         else if user_id \<notin> set users
         then get_trending_recommendations db now num_recommendations
         else
           let top_similar_users = engine_similar_users db user_id;
               content_scores = engine_content_scores db user_id top_similar_users;
               sorted_recommendations = sorted_desc snd content_scores;
               recommended_ids = map fst (take num_recommendations sorted_recommendations)
           in filter (\<lambda>c. c_id c \<in> set recommended_ids \<and> c_status c = ''Published'')
                (content_table db))"

subsection \<open>\<open>get_preference_based_recommendations\<close>\<close>

definition preference_score :: "datetime \<Rightarrow> preferences \<Rightarrow> content \<Rightarrow> real" where
  "preference_score now user_preferences content =
     (let score = 0;
          score = (if c_category content \<in> set (keys (categories user_preferences))
                   then score + getitem (categories user_preferences) (c_category content) * 2
                   else score);
          score = (if c_author content \<in> set (keys (authors user_preferences))
                   then score + getitem (authors user_preferences) (c_author content) * (3 / 2)
                   else score);
          score = fold (\<lambda>tag score.
                          if tag \<in> set (keys (tags user_preferences))
                          then score + getitem (tags user_preferences) tag * 1
                          else score)
                    (lowered_tags content) score;
          days_old = (now - c_created_at content) div 86400;
          recency_boost = max 0 (1 - real_of_int days_old / 30) * (2 / 10)
      in score + recency_boost)"

definition get_preference_based_recommendations ::
  "database \<Rightarrow> datetime \<Rightarrow> string \<Rightarrow> preferences \<Rightarrow> nat \<Rightarrow> content list" where
  "get_preference_based_recommendations db now user_id user_preferences num_recommendations =
     (let interacted_content_ids = user_content_ids db user_id;
          all_content = filter (\<lambda>c. c_status c = ''Published''
                                     \<and> c_id c \<notin> set interacted_content_ids)
                          (content_table db);
          content_scores = map (\<lambda>content. (content, preference_score now user_preferences content))
                             all_content
      in map fst (take num_recommendations (sorted_desc snd content_scores)))"

subsection \<open>\<open>get_hybrid_recommendations\<close>\<close>

text \<open>
  One of the three loops over \<open>enumerate(list)\<close>: the state is \<open>recommendation_scores\<close> and
  \<open>seen_content\<close>. An unseen item is scored and marked; a seen one is scored again when it
  has a score (the first loop has no such branch).
\<close>

definition hybrid_loop ::
  "real \<Rightarrow> bool \<Rightarrow> content list \<Rightarrow> (int, real) dict \<times> int list \<Rightarrow> (int, real) dict \<times> int list" where
  "hybrid_loop weight again cs =
     fold (\<lambda>(i, content) (recommendation_scores, seen_content).
             if c_id content \<notin> set seen_content
             then (dict_add recommendation_scores (c_id content)
                     (weight * (1 - real i * (5 / 100))),
                   seen_content @ [c_id content])
             else if again \<and> c_id content \<in> set (keys recommendation_scores)
             then (dict_add recommendation_scores (c_id content)
                     (weight * (1 - real i * (5 / 100))),
                   seen_content)
             else (recommendation_scores, seen_content))
       (enumerate 0 cs)"

text \<open>
  \<open>content_based\<close> is what \<open>get_content_based_recommendations(user_id, 2 * n)\<close> returns: it
  is computed by scikit-learn's TF-IDF vectoriser, which is not part of the repository.
\<close>

definition get_hybrid_recommendations_engine ::
  "database \<Rightarrow> datetime \<Rightarrow> string \<Rightarrow> nat \<Rightarrow> content list \<Rightarrow> content list" where
  "get_hybrid_recommendations_engine db now user_id num_recommendations content_based =
     (let user_preferences = analyze_user_behavior db now user_id;
          collaborative = get_collaborative_filtering_recommendations_engine db now user_id
                            (num_recommendations * 2);
          preference_based = get_preference_based_recommendations db now user_id user_preferences
                               (num_recommendations * 2);
          (recommendation_scores, seen_content) =
             hybrid_loop (3 / 10) True preference_based
               (hybrid_loop (3 / 10) True collaborative
                 (hybrid_loop (4 / 10) False content_based ([], [])));
          sorted_recommendations = sorted_desc snd recommendation_scores;
          final_content_ids = map fst (take num_recommendations sorted_recommendations)
      in filter (\<lambda>c. c_id c \<in> set final_content_ids) (content_table db))"

section \<open>\<open>app.py\<close>: recommendations for a content page\<close>

subsection \<open>\<open>get_content_recommendations\<close>\<close>

definition get_content_recommendations :: "database \<Rightarrow> int \<Rightarrow> nat \<Rightarrow> (content \<times> real) list" where
  "get_content_recommendations db content_id limit =
     (case List.find (\<lambda>c. c_id c = content_id) (content_table db) of
        None \<Rightarrow> []
      | Some current_content \<Rightarrow>
          let other_content = filter (\<lambda>c. c_id c \<noteq> content_id \<and> c_status c = ''Published'')
                                (content_table db);
              recommendations =
                filter (\<lambda>(content, similarity). similarity > 0)
                  (map (\<lambda>content. (content, calculate_content_similarity current_content content))
                     other_content)
          in take limit (sorted_desc snd recommendations))"

subsection \<open>\<open>get_trending_content\<close>\<close>



subsection \<open>\<open>build_user_item_matrix\<close> and \<open>get_collaborative_filtering_recommendations\<close>\<close>

text \<open>
  \<open>user_item_matrix[user][content] = score\<close> for every interaction of the last 30 days, in
  table order. The list \<open>users\<close> is the matrix's keys (the source iterates over a set of
  them, in an order Python does not fix).
\<close>

definition build_user_item_matrix :: "database \<Rightarrow> datetime \<Rightarrow> (string, (int, real) dict) dict" where
  "build_user_item_matrix db now =
     (let cutoff_date = now - days 30;
          interactions = filter (\<lambda>i. i_timestamp i \<ge> cutoff_date) (interaction_table db)
      in fold (\<lambda>interaction user_item_matrix.
                 dict_set user_item_matrix (i_user_id interaction)
                   (dict_set (dict_get user_item_matrix (i_user_id interaction) [])
                      (i_content_id interaction) (i_interaction_score interaction)))
           interactions [])"

text \<open>The dictionary \<open>user_similarities\<close>: the other users with a positive similarity.\<close>

definition app_user_similarities ::
  "(string, (int, real) dict) dict \<Rightarrow> string \<Rightarrow> (string, real) dict" where
  "app_user_similarities user_item_matrix target_user_id =
     (let target_user_items = dict_get user_item_matrix target_user_id []
      in filter (\<lambda>(user_id, similarity). similarity > 0)
           (map (\<lambda>user_id. (user_id, calculate_user_similarity target_user_items
                                         (dict_get user_item_matrix user_id [])))
              (filter (\<lambda>user_id. user_id \<noteq> target_user_id) (keys user_item_matrix))))"

text \<open>
  The loop that fills \<open>recommendations\<close>; \<open>rated\<close> gives each selected user's items and
  \<open>seen\<close> is the target user's dictionary.
\<close>

definition weighted_scores ::
  "('u \<Rightarrow> ('i, real) dict) \<Rightarrow> ('i, real) dict \<Rightarrow> ('u \<times> real) list \<Rightarrow> ('i, real) dict" where
  "weighted_scores rated seen user_similarities =
     (let total_similarity = sum_list (map snd user_similarities)
      in fold (\<lambda>(user_id, similarity) recommendations.
                 let weight = similarity / total_similarity
                 in fold (\<lambda>(item_id, rating) recommendations.
                            if item_id \<notin> set (keys seen)
                            then dict_add recommendations item_id (weight * rating)
                            else recommendations)
                      (rated user_id) recommendations)
           user_similarities [])"

text \<open>\<open>round(x, 3)\<close> on a real number: to the nearest multiple of 1/1000, ties to even.\<close>

definition round3 :: "real \<Rightarrow> real" where
  "round3 x =
     (let y = x * 1000; f = \<lfloor>y\<rfloor>
      in if y - real_of_int f < 1 / 2 then real_of_int f / 1000
         else if y - real_of_int f > 1 / 2 then real_of_int (f + 1) / 1000
         else real_of_int (if even f then f else f + 1) / 1000)"

definition get_collaborative_filtering_recommendations_app ::
  "database \<Rightarrow> datetime \<Rightarrow> string \<Rightarrow> nat \<Rightarrow> (content \<times> real) list" where
  "get_collaborative_filtering_recommendations_app db now target_user_id limit =
     (let user_item_matrix = build_user_item_matrix db now
      in if target_user_id \<notin> set (keys user_item_matrix) then []
         else
           let target_user_items = getitem user_item_matrix target_user_id;
               user_similarities = app_user_similarities user_item_matrix target_user_id;
               total_similarity = sum_list (map snd user_similarities)
           in if total_similarity = 0 then []
              else
                let recommendations =
                      weighted_scores (\<lambda>user_id. dict_get user_item_matrix user_id [])
                        target_user_items user_similarities;
                    sorted_recommendations = sorted_desc snd recommendations;
                    content_ids = map fst (take limit sorted_recommendations);
                    recommended_content =
                      filter (\<lambda>c. c_id c \<in> set content_ids \<and> c_status c = ''Published'')
                        (content_table db)
                in map (\<lambda>content. (content, round3 (dict_get sorted_recommendations
                                                         (c_id content) 0)))
                     recommended_content)"

subsection \<open>\<open>get_hybrid_recommendations\<close>\<close>

record hybrid_recommendation =
  h_content :: content
  h_content_score :: real
  h_cf_score :: real
  h_hybrid_score :: real

definition get_hybrid_recommendations_app ::
  "database \<Rightarrow> datetime \<Rightarrow> string \<Rightarrow> int \<Rightarrow> nat \<Rightarrow> hybrid_recommendation list" where
  "get_hybrid_recommendations_app db now user_id content_id limit =
     (let content_based = get_content_recommendations db content_id (limit div 2 + 1);
          cf_based = get_collaborative_filtering_recommendations_app db now user_id
                       (limit div 2 + 1);
          all_recommendations =
            fold (\<lambda>(content, similarity) all_recommendations.
                    dict_set all_recommendations (c_id content)
                      \<lparr>h_content = content, h_content_score = similarity, h_cf_score = 0,
                       h_hybrid_score = similarity * (6 / 10)\<rparr>)
              content_based [];
          all_recommendations =
            fold (\<lambda>(content, cf_score) all_recommendations.
                    case map_of all_recommendations (c_id content) of
                      Some rec \<Rightarrow>
                        dict_set all_recommendations (c_id content)
                          (rec\<lparr>h_cf_score := cf_score,
                               h_hybrid_score := h_hybrid_score rec + cf_score * (4 / 10)\<rparr>)
                    | None \<Rightarrow>
                        dict_set all_recommendations (c_id content)
                          \<lparr>h_content = content, h_content_score = 0, h_cf_score = cf_score,
                           h_hybrid_score = cf_score * (4 / 10)\<rparr>)
              cf_based all_recommendations;
          sorted_recommendations = sorted_desc h_hybrid_score (map snd all_recommendations)
      in take limit sorted_recommendations)"

section \<open>\<open>product_recommendation_engine.py\<close>: \<open>ProductRecommendationEngine\<close>\<close>

record product =
  p_id :: int
  p_name :: string
  p_category :: string
  p_is_active :: bool
  p_created_at :: datetime

record order_row =
  o_id :: int
  o_user_id :: string
  o_status :: string

record order_item =
  oi_order_id :: int
  oi_product_id :: int
  oi_quantity :: int

record cart_item =
  ci_user_id :: string
  ci_product_id :: int
  ci_quantity :: int

record shop =
  users :: "string list"
  products :: "product list"
  orders :: "order_row list"
  order_items :: "order_item list"
  cart_items :: "cart_item list"

record product_recommendation =
  r_product :: product
  r_score :: real
  r_reason :: string

text \<open>
  A \<open>GROUP BY\<close> query with one \<open>SUM\<close>: the joined rows are given as (group, value) pairs and
  the groups come out in order of first occurrence.
\<close>

definition group_sum :: "('g \<times> real) list \<Rightarrow> ('g \<times> real) list" where
  "group_sum rows =
     map (\<lambda>g. (g, sum_list (map snd (filter (\<lambda>r. fst r = g) rows)))) (uniq (map fst rows))"

subsection \<open>\<open>build_user_product_matrix\<close>\<close>

text \<open>The order items of the completed orders of the users, with the user of each.\<close>

definition completed_purchases :: "shop \<Rightarrow> (string \<times> order_item) list" where
  "completed_purchases db =
     concat (map (\<lambda>u.
       concat (map (\<lambda>ord.
         map (\<lambda>oi. (u, oi))
           (filter (\<lambda>oi. oi_order_id oi = o_id ord) (order_items db)))
         (filter (\<lambda>ord. o_user_id ord = u \<and> o_status ord = ''completed'') (orders db))))
       (users db))"

definition purchase_query :: "shop \<Rightarrow> ((string \<times> int) \<times> real) list" where
  "purchase_query db =
     group_sum (map (\<lambda>(u, oi). ((u, oi_product_id oi), real_of_int (oi_quantity oi)))
                  (completed_purchases db))"

definition cart_query :: "shop \<Rightarrow> ((string \<times> int) \<times> real) list" where
  "cart_query db =
     map (\<lambda>(g, total). (g, total * (3 / 10)))
       (group_sum (concat (map (\<lambda>u.
          map (\<lambda>ci. ((u, ci_product_id ci), real_of_int (ci_quantity ci)))
            (filter (\<lambda>ci. ci_user_id ci = u) (cart_items db)))
          (users db))))"

text \<open>\<open>user_matrix[row.user_id][row.product_id] += float(row.interaction_score)\<close>.\<close>

definition matrix_add ::
  "(string, (int, real) dict) dict \<Rightarrow> (string \<times> int) \<times> real \<Rightarrow> (string, (int, real) dict) dict"
  where
  "matrix_add user_matrix row =
     (case row of ((user_id, product_id), interaction_score) \<Rightarrow>
        dict_set user_matrix user_id
          (dict_add (dict_get user_matrix user_id []) product_id interaction_score))"

definition build_user_product_matrix :: "shop \<Rightarrow> (string, (int, real) dict) dict" where
  "build_user_product_matrix db =
     fold (\<lambda>row user_matrix. matrix_add user_matrix row) (cart_query db)
       (fold (\<lambda>row user_matrix. matrix_add user_matrix row) (purchase_query db) [])"

subsection \<open>\<open>get_popular_products\<close>\<close>

definition total_sold :: "shop \<Rightarrow> product \<Rightarrow> int" where
  "total_sold db p =
     sum_list (map oi_quantity (filter (\<lambda>oi. oi_product_id oi = p_id p) (order_items db)))"

text \<open>\<open>Product.query.get(id)\<close>.\<close>

definition product_get :: "shop \<Rightarrow> int \<Rightarrow> product option" where
  "product_get db pid = List.find (\<lambda>p. p_id p = pid) (products db)"

definition get_popular_products :: "shop \<Rightarrow> nat \<Rightarrow> product_recommendation list" where
  "get_popular_products db limit =
     (let results = take limit
                      (sorted_desc (total_sold db)
                        (sorted_desc p_created_at (filter p_is_active (products db))))
      in concat (map (\<lambda>row.
                   case product_get db (p_id row) of
                     Some product \<Rightarrow> [\<lparr>r_product = product, r_score = 1 / 2,
                                       r_reason = ''Popular product''\<rparr>]
                   | None \<Rightarrow> [])
                 results))"

subsection \<open>\<open>get_user_based_recommendations\<close>\<close>

text \<open>The loop that fills \<open>product_scores\<close> from the similar users' products.\<close>

definition product_scores ::
  "(string, (int, real) dict) dict \<Rightarrow> (int, real) dict \<Rightarrow> (string \<times> real) list
     \<Rightarrow> (int, real) dict" where
  "product_scores user_product_matrix target_user_products top_similar_users =
     (let total_similarity = sum_list (map snd top_similar_users)
      in fold (\<lambda>(similar_user_id, similarity) product_scores.
                 let similar_user_products = getitem user_product_matrix similar_user_id;
                     weight = similarity / total_similarity
                 in fold (\<lambda>(product_id, score) product_scores.
                            if product_id \<notin> set (keys target_user_products)
                            then dict_add product_scores product_id (score * weight)
                            else product_scores)
                      similar_user_products product_scores)
           top_similar_users [])"

text \<open>
  The engine keeps \<open>self.user_product_matrix\<close>; the function takes it and returns it with the
  result. It is rebuilt when empty.
\<close>

definition get_user_based_recommendations ::
  "(string, (int, real) dict) dict \<Rightarrow> shop \<Rightarrow> string \<Rightarrow> nat
     \<Rightarrow> product_recommendation list \<times> (string, (int, real) dict) dict" where
  "get_user_based_recommendations matrix db target_user_id limit =
     (let user_product_matrix = (if matrix = [] then build_user_product_matrix db else matrix)
      in if target_user_id \<notin> set (keys user_product_matrix)
         then (get_popular_products db limit, user_product_matrix)
         else
           let target_user_products = getitem user_product_matrix target_user_id;
               user_similarities =
                 filter (\<lambda>(user_id, similarity). similarity > 1 / 10)
                   (map (\<lambda>(user_id, user_products).
                           (user_id, calculate_user_similarity_product target_user_products
                                       user_products))
                      (filter (\<lambda>(user_id, user_products). user_id \<noteq> target_user_id)
                         user_product_matrix));
               top_similar_users = take 10 (sorted_desc snd user_similarities)
           in if top_similar_users = []
              then (get_popular_products db limit, user_product_matrix)
              else
                let scores = product_scores user_product_matrix target_user_products
                               top_similar_users;
                    sorted_recommendations = sorted_desc snd scores;
                    recommended_products =
                      concat (map (\<lambda>(product_id, score).
                                case product_get db product_id of
                                  Some product \<Rightarrow>
                                    if p_is_active product
                                    then [\<lparr>r_product = product, r_score = score,
                                           r_reason = ''Users with similar preferences also liked this product''\<rparr>]
                                    else []
                                | None \<Rightarrow> [])
                              (take limit sorted_recommendations))
                in (recommended_products, user_product_matrix))"

subsection \<open>\<open>get_category_based_recommendations\<close>\<close>

definition preferred_categories :: "shop \<Rightarrow> string \<Rightarrow> string list" where
  "preferred_categories db user_id =
     map fst (take 3 (sorted_desc snd
       (group_sum
          (concat (map (\<lambda>(u, oi).
             map (\<lambda>p. (p_category p, real_of_int (oi_quantity oi)))
               (filter (\<lambda>p. p_id p = oi_product_id oi) (products db)))
             (filter (\<lambda>(u, oi). u = user_id) (completed_purchases db)))))))"

definition purchased_product_ids :: "shop \<Rightarrow> string \<Rightarrow> int list" where
  "purchased_product_ids db user_id =
     uniq (concat (map (\<lambda>ord.
       map oi_product_id (filter (\<lambda>oi. oi_order_id oi = o_id ord) (order_items db)))
       (filter (\<lambda>ord. o_user_id ord = user_id \<and> o_status ord = ''completed'') (orders db))))"

definition get_category_based_recommendations ::
  "shop \<Rightarrow> string \<Rightarrow> nat \<Rightarrow> product_recommendation list" where
  "get_category_based_recommendations db user_id limit =
     (let results = preferred_categories db user_id
      in if results = [] then get_popular_products db limit
         else
           let purchased = purchased_product_ids db user_id;
               recommended_products =
                 fold (\<lambda>category recommended_products.
                         fold (\<lambda>product recommended_products.
                                 if length recommended_products < limit
                                 then recommended_products
                                        @ [\<lparr>r_product = product, r_score = 8 / 10,
                                             r_reason = ''Based on your interest in '' @ category\<rparr>]
                                 else recommended_products)
                           (take limit (sorted_desc p_created_at
                              (filter (\<lambda>p. p_category p = category \<and> p_is_active p
                                             \<and> p_id p \<notin> set purchased)
                                 (products db))))
                           recommended_products)
                   results []
           in take limit recommended_products)"

subsection \<open>\<open>get_hybrid_recommendations\<close>\<close>

definition get_hybrid_recommendations_product ::
  "(string, (int, real) dict) dict \<Rightarrow> shop \<Rightarrow> string \<Rightarrow> nat
     \<Rightarrow> product_recommendation list \<times> (string, (int, real) dict) dict" where
  "get_hybrid_recommendations_product matrix db user_id limit =
     (let (user_based, user_product_matrix) =
            get_user_based_recommendations matrix db user_id (limit div 2 + 1);
          category_based = get_category_based_recommendations db user_id (limit div 2 + 1);
          (recommendations, seen_products) =
            fold (\<lambda>rec (recommendations, seen_products).
                    if p_id (r_product rec) \<notin> set seen_products
                    then (recommendations @ [rec\<lparr>r_score := r_score rec * (12 / 10)\<rparr>],
                          seen_products @ [p_id (r_product rec)])
                    else (recommendations, seen_products))
              user_based ([], []);
          (recommendations, seen_products) =
            fold (\<lambda>rec (recommendations, seen_products).
                    if p_id (r_product rec) \<notin> set seen_products
                       \<and> length recommendations < limit
                    then (recommendations @ [rec], seen_products @ [p_id (r_product rec)])
                    else (recommendations, seen_products))
              category_based (recommendations, seen_products);
          (recommendations, seen_products) =
            (if length recommendations < limit
             then fold (\<lambda>rec (recommendations, seen_products).
                          if p_id (r_product rec) \<notin> set seen_products
                          then (recommendations @ [rec], seen_products @ [p_id (r_product rec)])
                          else (recommendations, seen_products))
                    (get_popular_products db (limit - length recommendations))
                    (recommendations, seen_products)
             else (recommendations, seen_products))
      in (take limit recommendations, user_product_matrix))"

section \<open>The specification's weighted average\<close>


subsection \<open>The loops of the weighted scoring on their own\<close>





section \<open>Example data\<close>


text \<open>Two published items; user \<open>u1\<close> has viewed the first and liked the second.\<close>

definition example_db :: database where
  "example_db =
     \<lparr>content_table =
        [\<lparr>c_id = 1, c_title = ''Intro'', c_content = ''Learning python basics'',
          c_category = ''Tutorial'', c_status = ''Published'', c_author = ''ann'',
          c_tags = Some ''Python, web'', c_created_at = 0\<rparr>,
         \<lparr>c_id = 2, c_title = ''Markets'', c_content = ''Quarterly revenue grows'',
          c_category = ''News'', c_status = ''Published'', c_author = ''bob'',
          c_tags = None, c_created_at = 5\<rparr>],
      interaction_table =
        [\<lparr>i_user_id = ''u1'', i_content_id = 1, i_interaction_type = ''view'',
          i_interaction_score = 1, i_timestamp = 0\<rparr>,
         \<lparr>i_user_id = ''u1'', i_content_id = 2, i_interaction_type = ''like'',
          i_interaction_score = 1, i_timestamp = 10\<rparr>]\<rparr>"



definition tagged_a :: content where
  "tagged_a = \<lparr>c_id = 3, c_title = ''A'', c_content = ''alpha'',
      c_category = ''Blog Post'', c_status = ''Published'', c_author = ''ann'',
      c_tags = Some ''news, web'', c_created_at = 0\<rparr>"


text \<open>
  A shop with three active products. Ann has bought the lamp; Bob has bought the lamp and
  the pen.
\<close>

definition example_shop :: shop where
  "example_shop =
     \<lparr>users = [''ann'', ''bob''],
      products =
        [\<lparr>p_id = 1, p_name = ''Lamp'', p_category = ''Home'', p_is_active = True,
          p_created_at = 1\<rparr>,
         \<lparr>p_id = 2, p_name = ''Desk'', p_category = ''Home'', p_is_active = True,
          p_created_at = 2\<rparr>,
         \<lparr>p_id = 3, p_name = ''Pen'', p_category = ''Office'', p_is_active = True,
          p_created_at = 3\<rparr>],
      orders =
        [\<lparr>o_id = 1, o_user_id = ''ann'', o_status = ''completed''\<rparr>,
         \<lparr>o_id = 2, o_user_id = ''bob'', o_status = ''completed''\<rparr>],
      order_items =
        [\<lparr>oi_order_id = 1, oi_product_id = 1, oi_quantity = 2\<rparr>,
         \<lparr>oi_order_id = 2, oi_product_id = 1, oi_quantity = 2\<rparr>,
         \<lparr>oi_order_id = 2, oi_product_id = 3, oi_quantity = 3\<rparr>],
      cart_items = []\<rparr>"


text \<open>
  Three published items and two users: \<open>u1\<close> has viewed item 1 (score 1); \<open>u2\<close> has item 1
  with score 3 and item 2 with score 4.
\<close>

definition item_1 :: content where
  "item_1 = \<lparr>c_id = 1, c_title = ''One'', c_content = ''first'',
      c_category = ''Blog Post'', c_status = ''Published'', c_author = ''ann'',
      c_tags = Some ''news'', c_created_at = 0\<rparr>"

definition item_2 :: content where
  "item_2 = \<lparr>c_id = 2, c_title = ''Two'', c_content = ''second'',
      c_category = ''Blog Post'', c_status = ''Published'', c_author = ''bob'',
      c_tags = Some ''news'', c_created_at = 0\<rparr>"

definition cf_db :: database where
  "cf_db =
     \<lparr>content_table = [item_1, item_2, tagged_a],
      interaction_table =
        [\<lparr>i_user_id = ''u1'', i_content_id = 1, i_interaction_type = ''view'',
          i_interaction_score = 1, i_timestamp = 10\<rparr>,
         \<lparr>i_user_id = ''u2'', i_content_id = 1, i_interaction_type = ''like'',
          i_interaction_score = 3, i_timestamp = 20\<rparr>,
         \<lparr>i_user_id = ''u2'', i_content_id = 2, i_interaction_type = ''like'',
          i_interaction_score = 4, i_timestamp = 30\<rparr>]\<rparr>"

section \<open>Verification: user similarity\<close>





text \<open>
  The product engine's function returns 0 on every pair: without a common product by the
  early return, and otherwise because \<open>math.sqrt\<close> raises on the generator and the handler
  returns \<open>0.0\<close>.
\<close>

lemma calculate_user_similarity_product_zero: "calculate_user_similarity_product a b = 0"
  unfolding calculate_user_similarity_product_def calculate_user_similarity_product_try_def
  by (simp add: Let_def math_sqrt_def split: sum.splits)

lemma sqrt_25: "sqrt 25 = 5"
  using real_sqrt_abs[of 5] by simp





section \<open>Verification: the interaction store\<close>










section \<open>Verification: the behaviour analyser\<close>


lemma values_dict_set: "set (map snd (dict_set d k v)) \<subseteq> insert v (set (map snd d))"
proof (induction d)
  case Nil
  then show ?case by simp
next
  case (Cons a d)
  then show ?case by (cases a) (fastforce split: if_splits)
qed

lemma dict_get_nonneg: "nonneg_values d \<Longrightarrow> 0 \<le> dict_get d k 0"
  unfolding nonneg_values_def dict_get_def
  by (auto split: option.splits dest!: map_of_SomeD)

lemma nonneg_dict_add: "nonneg_values d \<Longrightarrow> 0 \<le> v \<Longrightarrow> nonneg_values (dict_add d k v)"
  using values_dict_set[of d k "dict_get d k 0 + v"] dict_get_nonneg[of d k]
  unfolding nonneg_values_def dict_add_def by fastforce

lemma nonneg_fold_dict_add:
  "nonneg_values d \<Longrightarrow> 0 \<le> v \<Longrightarrow> nonneg_values (fold (\<lambda>tag scores. dict_add scores tag v) ts d)"
  by (induction ts arbitrary: d) (auto simp: nonneg_dict_add)

lemma interaction_weight_nonneg: "0 \<le> dict_get interaction_weights t 1"
  by (simp add: dict_get_def interaction_weights_def)

lemma behavior_step_nonneg:
  assumes "nonneg_values cs" "nonneg_values as" "nonneg_values ts" "0 \<le> i_interaction_score r"
    "behavior_step db n (i, r) (cs, as, ts) = (cs', as', ts')"
  shows "nonneg_values cs' \<and> nonneg_values as' \<and> nonneg_values ts'"
proof -
  have w: "0 \<le> dict_get interaction_weights (i_interaction_type r) 1 * time_decay_factor ^ (n - i - 1) * i_interaction_score r"
    using interaction_weight_nonneg assms(4) by (simp add: time_decay_factor_def)
  show ?thesis using assms(1,2,3,5) w
    by (auto simp: behavior_step_def Let_def nonneg_dict_add nonneg_fold_dict_add
        split: option.splits if_splits)
qed

lemma behavior_fold_nonneg:
  assumes "\<forall>ir \<in> set irs. 0 \<le> i_interaction_score (snd ir)"
    "nonneg_values cs" "nonneg_values as" "nonneg_values ts"
    "fold (behavior_step db n) irs (cs, as, ts) = (cs', as', ts')"
  shows "nonneg_values cs' \<and> nonneg_values as' \<and> nonneg_values ts'"
  using assms
proof (induction irs arbitrary: cs as ts)
  case Nil
  then show ?case by simp
next
  case (Cons ir irs)
  obtain i r where ir: "ir = (i, r)" by (cases ir)
  obtain cs1 as1 ts1 where s: "behavior_step db n (i, r) (cs, as, ts) = (cs1, as1, ts1)"
    by (metis prod_cases3)
  have "0 \<le> i_interaction_score r" using Cons.prems(1) ir by simp
  from behavior_step_nonneg[OF Cons.prems(2,3,4) this s]
  have n1: "nonneg_values cs1" "nonneg_values as1" "nonneg_values ts1" by auto
  have "fold (behavior_step db n) irs (cs1, as1, ts1) = (cs', as', ts')"
    using Cons.prems(5) ir s by simp
  from Cons.IH[OF _ n1 this] Cons.prems(1) show ?case by simp
qed

lemma normalize_ok:
  assumes "nonneg_values d" "normalize d (max_score d) = Inr nd"
  shows "normalized_bucket nd"
proof (cases "d = []")
  case True
  with assms show ?thesis by (simp add: normalize_def normalized_bucket_def)
next
  case False
  let ?m = "Max (set (map snd d))"
  have m: "max_score d = ?m" using False by (simp add: max_score_def)
  have ne: "set (map snd d) \<noteq> {}" using False by simp
  have min: "?m \<in> set (map snd d)" using ne by (intro Max_in) auto
  have m0: "?m \<noteq> 0" using assms(2) False m by (auto simp: normalize_def split: if_splits)
  have "0 \<le> ?m" using min assms(1) unfolding nonneg_values_def by blast
  with m0 have mpos: "0 < ?m" by simp
  have nd: "nd = map (\<lambda>(k, v). (k, v / ?m)) d"
    using assms(2) False m m0 by (auto simp: normalize_def)
  have vals: "set (map snd nd) = (\<lambda>v. v / ?m) ` set (map snd d)"
    unfolding nd by (force simp: image_iff)
  have le: "\<And>v. v \<in> set (map snd d) \<Longrightarrow> v \<le> ?m" by (rule Max_ge) auto
  have "\<forall>w \<in> set (map snd nd). 0 \<le> w \<and> w \<le> 1"
    unfolding vals using assms(1) le mpos unfolding nonneg_values_def
    by (auto simp: divide_le_eq)
  moreover have "1 \<in> set (map snd nd)"
    unfolding vals using min m0 by (metis (mono_tags, lifting) divide_self image_iff)
  ultimately show ?thesis by (simp add: normalized_bucket_def)
qed

lemma normalized_bucket_Nil: "normalized_bucket []"
  by (simp add: normalized_bucket_def)

lemma snd_enumerate_in_set: "ir \<in> set (enumerate n ys) \<Longrightarrow> snd ir \<in> set ys"
proof -
  assume "ir \<in> set (enumerate n ys)"
  then have "fst ir - n < length ys" "ys ! (fst ir - n) = snd ir"
    by (auto simp: in_set_enumerate_eq)
  then show ?thesis by (metis nth_mem)
qed

lemma analyze_user_behavior_cases:
  fixes db now user_id
  defines "is \<equiv> filter (\<lambda>i. i_user_id i = user_id \<and> i_timestamp i \<ge> now - days 90)
                    (interaction_table db)"
  defines "st \<equiv> fold (behavior_step db (length is)) (enumerate 0 (sort_key i_timestamp is))
                    ([], [], [])"
  shows "analyze_user_behavior db now user_id = get_default_preferences
       \<or> (\<exists>nc na nt.
            normalize (fst st) (max_score (fst st)) = Inr nc
          \<and> normalize (fst (snd st)) (max_score (fst (snd st))) = Inr na
          \<and> normalize (snd (snd st)) (max_score (snd (snd st))) = Inr nt
          \<and> categories (analyze_user_behavior db now user_id) = nc
          \<and> authors (analyze_user_behavior db now user_id) = na
          \<and> tags (analyze_user_behavior db now user_id) = nt)"
proof -
  obtain cs as ts where st: "st = (cs, as, ts)" by (metis prod_cases3)
  have unf: "analyze_user_behavior db now user_id =
     (if is = [] then get_default_preferences
      else case normalize cs (max_score cs) of
                Inl e \<Rightarrow> get_default_preferences
              | Inr normalized_categories \<Rightarrow>
             (case normalize as (max_score as) of
                Inl e \<Rightarrow> get_default_preferences
              | Inr normalized_authors \<Rightarrow>
             (case normalize ts (max_score ts) of
                Inl e \<Rightarrow> get_default_preferences
              | Inr normalized_tags \<Rightarrow>
                  \<lparr>categories = normalized_categories,
                   authors = normalized_authors,
                   tags = normalized_tags,
                   total_interactions = length is,
                   recent_activity =
                     length (filter (\<lambda>i. i_timestamp i \<ge> now - days 7) is)\<rparr>)))"
    unfolding analyze_user_behavior_def Let_def is_def[symmetric] st_def[symmetric] st
    by simp
  show ?thesis
    unfolding unf st by (simp split: sum.splits)
qed

text \<open>
  Claim C7. When the stored scores are \<open>\<ge> 0\<close> (the data model's invariant, kept by
  the table's \<open>CHECK\<close> constraint), each bucket of the profile returned by
  \<open>analyze_user_behavior\<close> has all its weights in \<open>[0, 1]\<close>, and a non-empty bucket
  has a weight equal to 1.
\<close>

theorem behavior_profile_normalized:
  assumes "\<forall>r \<in> set (interaction_table db). 0 \<le> i_interaction_score r"
  shows "normalized_bucket (categories (analyze_user_behavior db now user_id))
       \<and> normalized_bucket (authors (analyze_user_behavior db now user_id))
       \<and> normalized_bucket (tags (analyze_user_behavior db now user_id))"
proof -
  let ?is = "filter (\<lambda>i. i_user_id i = user_id \<and> i_timestamp i \<ge> now - days 90) (interaction_table db)"
  let ?irs = "enumerate 0 (sort_key i_timestamp ?is)"
  let ?st = "fold (behavior_step db (length ?is)) ?irs ([], [], [])"
  obtain cs as ts where f: "?st = (cs, as, ts)"
    by (cases ?st) blast
  have "\<forall>ir \<in> set ?irs. 0 \<le> i_interaction_score (snd ir)"
  proof
    fix ir assume "ir \<in> set ?irs"
    then have "snd ir \<in> set (sort_key i_timestamp ?is)" by (rule snd_enumerate_in_set)
    then have "snd ir \<in> set (interaction_table db)" by simp
    then show "0 \<le> i_interaction_score (snd ir)" using assms by blast
  qed
  from behavior_fold_nonneg[OF this _ _ _ f]
  have nn: "nonneg_values cs" "nonneg_values as" "nonneg_values ts"
    by (simp_all add: nonneg_values_def)
  from analyze_user_behavior_cases[of db now user_id]
  show ?thesis
  proof
    assume "analyze_user_behavior db now user_id = get_default_preferences"
    then show ?thesis by (simp add: get_default_preferences_def normalized_bucket_Nil)
  next
    assume "\<exists>nc na nt.
            normalize (fst ?st) (max_score (fst ?st)) = Inr nc
          \<and> normalize (fst (snd ?st)) (max_score (fst (snd ?st))) = Inr na
          \<and> normalize (snd (snd ?st)) (max_score (snd (snd ?st))) = Inr nt
          \<and> categories (analyze_user_behavior db now user_id) = nc
          \<and> authors (analyze_user_behavior db now user_id) = na
          \<and> tags (analyze_user_behavior db now user_id) = nt"
    then obtain nc na nt where
      "normalize cs (max_score cs) = Inr nc" "normalize as (max_score as) = Inr na"
      "normalize ts (max_score ts) = Inr nt"
      "categories (analyze_user_behavior db now user_id) = nc"
      "authors (analyze_user_behavior db now user_id) = na"
      "tags (analyze_user_behavior db now user_id) = nt"
      unfolding f by (elim exE conjE) simp
    then show ?thesis
      using normalize_ok[OF nn(1)] normalize_ok[OF nn(2)] normalize_ok[OF nn(3)] by simp
  qed
qed

theorem behavior_profile_normalized_witness:
  "normalized_bucket (categories (analyze_user_behavior example_db 100 ''u1''))
   \<and> normalized_bucket (authors (analyze_user_behavior example_db 100 ''u1''))
   \<and> normalized_bucket (tags (analyze_user_behavior example_db 100 ''u1''))
   \<and> analyze_user_behavior example_db 100 ''u1'' =
       \<lparr>categories = [(''Tutorial'', 19 / 40), (''News'', 1)],
        authors = [(''ann'', 19 / 40), (''bob'', 1)],
        tags = [(''python'', 1), (''web'', 1)],
        total_interactions = 2, recent_activity = 2\<rparr>"
proof -
  have h: "\<forall>r \<in> set (interaction_table example_db). 0 \<le> i_interaction_score r"
    by (simp add: example_db_def)
  have e: "analyze_user_behavior example_db 100 ''u1'' =
       \<lparr>categories = [(''Tutorial'', 19 / 40), (''News'', 1)],
        authors = [(''ann'', 19 / 40), (''bob'', 1)],
        tags = [(''python'', 1), (''web'', 1)],
        total_interactions = 2, recent_activity = 2\<rparr>"
    by code_simp
  show ?thesis
    using behavior_profile_normalized[OF h, of 100 "''u1''"] e by simp
qed

section \<open>Verification: content similarity\<close>




section \<open>Verification: the classifier\<close>










section \<open>Verification: the product engine's user-based strategy\<close>

lemma no_similar_users:
  "filter (\<lambda>(user_id, similarity). similarity > 1 / 10)
     (map (\<lambda>(user_id, user_products).
             (user_id, calculate_user_similarity_product target user_products)) m) = []"
  by (auto simp: filter_empty_conv calculate_user_similarity_product_zero)

lemma get_user_based_recommendations_popular:
  "fst (get_user_based_recommendations matrix db target_user_id limit)
     = get_popular_products db limit"
  unfolding get_user_based_recommendations_def Let_def no_similar_users
  by (simp add: sorted_desc_def)

lemma popular_example:
  "map (\<lambda>r. (p_id (r_product r), r_score r)) (get_popular_products example_shop 2)
     = [(1, 1 / 2), (3, 1 / 2)]"
  by code_simp

lemma matrix_example:
  "build_user_product_matrix example_shop = [(''ann'', [(1, 2)]), (''bob'', [(1, 2), (3, 3)])]"
  by code_simp

text \<open>
  Claim C9. Whatever the cached user-product matrix, the target user and the limit,
  \<open>get_user_based_recommendations\<close> returns what \<open>get_popular_products\<close> returns for the
  same limit, and \<open>calculate_user_similarity\<close> of the product engine is 0 on every pair of
  vectors.
\<close>

theorem user_based_is_popular:
  "fst (get_user_based_recommendations matrix db target_user_id limit)
     = get_popular_products db limit
   \<and> calculate_user_similarity_product user1_products user2_products = 0"
  using get_user_based_recommendations_popular calculate_user_similarity_product_zero
  by blast

text \<open>
  Ann and Bob have both bought the lamp, and their similarity is still 0: Ann is offered
  the two best-selling products, the lamp among them.
\<close>

theorem user_based_is_popular_witness:
  "build_user_product_matrix example_shop = [(''ann'', [(1, 2)]), (''bob'', [(1, 2), (3, 3)])]
   \<and> calculate_user_similarity_product [(1 :: int, 2)] [(1, 2), (3, 3)] = 0
   \<and> map (\<lambda>r. (p_id (r_product r), r_score r))
        (fst (get_user_based_recommendations [] example_shop ''ann'' 2))
       = [(1, 1 / 2), (3, 1 / 2)]"
  using user_based_is_popular[of "[]" example_shop "''ann''" 2
          "[(1 :: int, 2 :: real)]" "[(1 :: int, 2 :: real), (3, 3)]"]
    popular_example matrix_example
  by simp


section \<open>Verification: the trending and popularity fallbacks\<close>

















section \<open>Verification: collaborative-filtering scores\<close>























lemma cosine_example: "cosine_similarity [1, 0] [3, 4] = 3 / 5"
  by (simp add: cosine_similarity_def sk_normalize_def sqrt_25)

lemma cosine_self_example: "cosine_similarity [1, 0] [1, 0] = 1"
  by (simp add: cosine_similarity_def sk_normalize_def)

lemma rows_example:
  "uniq (map i_user_id (interaction_table cf_db)) = [''u1'', ''u2'']"
  "uniq (map i_content_id (interaction_table cf_db)) = [1, 2]"
  "matrix_row cf_db [1, 2] ''u1'' = [1, 0]"
  "matrix_row cf_db [1, 2] ''u2'' = [3, 4]"
  by code_simp+

lemma engine_similar_users_example: "engine_similar_users cf_db ''u1'' = [(''u2'', 3 / 5)]"
  unfolding engine_similar_users_def Let_def rows_example
  by (simp add: rows_example cosine_example cosine_self_example sorted_desc_def)

lemma engine_content_scores_example:
  "engine_content_scores cf_db ''u1'' [(''u2'', 3 / 5)] = [(2, 12 / 5)]"
  by code_simp

lemma engine_cf_example:
  "get_collaborative_filtering_recommendations_engine cf_db 100 ''u1'' 5 = [item_2]"
  unfolding get_collaborative_filtering_recommendations_engine_def Let_def rows_example
    engine_similar_users_example engine_content_scores_example
  by (simp add: sorted_desc_def cf_db_def item_1_def item_2_def tagged_a_def)










end
